theory Spec2Isabelle
  imports Complex_Main "HOL-Library.Word"
begin

section \<open>Tabular datasets\<close>

text \<open>
  A pandas DataFrame is modelled as an ordered list of labelled columns. A column has a
  dtype: floating-point numbers (\<open>NumCol\<close>, float64; the values are idealised as real
  numbers, and Python's true division \<^verbatim>\<open>x / 60\<close> is the division of that type),
  integers (\<open>IntCol\<close>, int64), or text (\<open>TxtCol\<close>, dtype object holding strings).
  Column labels are unique, as \<^verbatim>\<open>pandas.read_csv\<close> produces them.
\<close>

datatype column = NumCol "real list" | IntCol "int list" | TxtCol "string list"

type_synonym dataframe = "(string \<times> column) list"

definition columns :: "dataframe \<Rightarrow> string list" where
  "columns d = map fst d"

fun col_len :: "column \<Rightarrow> nat" where
  "col_len (NumCol xs) = length xs"
| "col_len (IntCol ns) = length ns"
| "col_len (TxtCol ss) = length ss"

text \<open>\<^verbatim>\<open>pd.DataFrame()\<close>: no columns and no rows.\<close>

definition empty_frame :: dataframe where
  "empty_frame = []"

text \<open>\<^verbatim>\<open>DataFrame.empty\<close>: some axis has length zero.\<close>

definition df_empty :: "dataframe \<Rightarrow> bool" where
  "df_empty d = (case d of [] \<Rightarrow> True | (n, c) # rest \<Rightarrow> col_len c = 0)"

section \<open>Exceptions and user-interface events\<close>

text \<open>
  The values of \<open>exn\<close> are instances of Python's \<^verbatim>\<open>Exception\<close> class, which is what
  the handlers \<^verbatim>\<open>except Exception\<close> of the source catch. \<open>LibraryError\<close> stands for
  any such exception raised inside an external library, with its message.
\<close>

datatype exn =
    KeyError string
  | NameError string
  | TypeError
  | ValueError
  | UnicodeDecodeError
  | LibraryError string

text \<open>\<^verbatim>\<open>str(e)\<close>\<close>

fun exn_str :: "exn \<Rightarrow> string" where
  "exn_str (KeyError k) = k"
| "exn_str (NameError n) = ''name '' @ n @ '' is not defined''"
| "exn_str TypeError = ''unsupported operand type(s) for /''"
| "exn_str ValueError = ''Unknown format code''"
| "exn_str UnicodeDecodeError = ''codec cannot decode byte''"
| "exn_str (LibraryError m) = m"

datatype level = Info | Warning | Error | Success

text \<open>
  The texts of the messages of the source, one constructor for each call site, with the
  values the formatted strings interpolate.
\<close>

datatype ui_text =
    Converted_from_seconds
  | Converted_from_milliseconds
  | Already_in_minutes
  | Unknown_time_unit string
  | Hplc_unavailable_cannot_process
  | Processing_with_hplc
  | Columns_not_found string string
  | Peak_analysis_done
  | Hplc_processing_error string
  | File_loaded_preview
  | Describe_failed string
  | No_columns_detected
  | Select_time_and_signal
  | Hplc_unavailable_peaks_skipped
  | Cannot_plot
  | No_peaks_detected
  | Peak_analysis_requires_hplc
  | Data_processing_error string
  | File_read_error string string
  | Try_other_delimiter
  | Please_upload_file
  | Hplc_library_not_found
  | Peak_features_unavailable
  | Analysis_parameters_disabled

datatype section_id =
    Upload_section
  | Column_config_section
  | Results_section
  | Chromatogram_plot
  | Peak_info
  | Peak_statistics
  | Expected_format_section

datatype widget_id = Time_column_selector | Signal_column_selector | Time_unit_selector

datatype metric_id =
    Peak_count
  | Mean_height | Max_height | Min_height
  | Total_area | Mean_area | Max_area

datatype ui_event =
    Msg level ui_text
  | Exception_shown exn
  | Header section_id
  | Show_frame dataframe
  | Dataset_info nat nat "string list"
  | Describe_shown dataframe
  | Selectbox widget_id "string list" nat
  | Plot_curve column column
  | Plot_peaks column column
  | Axis_labels "string option" "string option"
  | Metric metric_id "real option"
  | Download_button dataframe

section \<open>The Time Normalizer\<close>

text \<open>
  DataFrame objects live in a store; a reference is an index into it. \<^verbatim>\<open>data.copy()\<close>
  allocates a new object holding a deep copy.
\<close>

type_synonym ref = nat
type_synonym store = "dataframe list"

definition df_copy :: "store \<Rightarrow> ref \<Rightarrow> ref \<times> store" where
  "df_copy h r = (length h, h @ [h ! r])"

text \<open>\<^verbatim>\<open>df[name]\<close>: the column, \<^verbatim>\<open>KeyError\<close> when the label is absent.\<close>

definition df_getitem :: "dataframe \<Rightarrow> string \<Rightarrow> exn + column" where
  "df_getitem d name = (case map_of d name of None \<Rightarrow> Inl (KeyError name) | Some c \<Rightarrow> Inr c)"

text \<open>
  \<^verbatim>\<open>series.apply(lambda x: x / k)\<close>: the function is called on every element. The true
  division of a number, integer or not, is a floating-point number; on a string it
  raises \<^verbatim>\<open>TypeError\<close>; on an empty column nothing is called.
\<close>

fun apply_truediv :: "column \<Rightarrow> real \<Rightarrow> exn + column" where
  "apply_truediv (NumCol xs) k = Inr (NumCol (map (\<lambda>x. x / k) xs))"
| "apply_truediv (IntCol ns) k = Inr (NumCol (map (\<lambda>n. real_of_int n / k) ns))"
| "apply_truediv (TxtCol []) k = Inr (TxtCol [])"
| "apply_truediv (TxtCol (s # ss)) k = Inl TypeError"

text \<open>
  Writing values into an existing column keeps the dtype of the column, as pandas does
  from version 3 on: an integer column takes floating-point values that are whole
  numbers, as integers, and raises \<^verbatim>\<open>TypeError\<close> on any other; a numeric column raises
  on strings; a column of dtype object takes any value.
\<close>

definition is_whole :: "real \<Rightarrow> bool" where
  "is_whole y = (real_of_int \<lfloor>y\<rfloor> = y)"

fun cast_into :: "column \<Rightarrow> column \<Rightarrow> exn + column" where
  "cast_into (NumCol xs) (NumCol ys) = Inr (NumCol ys)"
| "cast_into (NumCol xs) (IntCol ns) = Inr (NumCol (map real_of_int ns))"
| "cast_into (NumCol xs) (TxtCol ss) = (if ss = [] then Inr (NumCol []) else Inl TypeError)"
| "cast_into (IntCol ms) (NumCol ys) =
     (if list_all is_whole ys then Inr (IntCol (map floor ys)) else Inl TypeError)"
| "cast_into (IntCol ms) (IntCol ns) = Inr (IntCol ns)"
| "cast_into (IntCol ms) (TxtCol ss) = (if ss = [] then Inr (IntCol []) else Inl TypeError)"
| "cast_into (TxtCol ts) c' = Inr c'"

text \<open>
  \<^verbatim>\<open>df.loc[:, name] = series\<close>: the values are written into the column of that label,
  and a label that is absent gets a new column.
\<close>

definition loc_setitem :: "dataframe \<Rightarrow> string \<Rightarrow> column \<Rightarrow> exn + dataframe" where
  "loc_setitem d name c' =
     (case map_of d name of
        None \<Rightarrow> Inr (d @ [(name, c')])
      | Some c \<Rightarrow>
          (case cast_into c c' of
             Inl e \<Rightarrow> Inl e
           | Inr c'' \<Rightarrow> Inr (map (\<lambda>(n, x). if n = name then (n, c'') else (n, x)) d)))"

text \<open>
  \<^verbatim>\<open>data_copy.loc[:, time_col] = data_copy[time_col].apply(lambda x: x / k)\<close>, a mutation
  of the object \<open>r\<close> of the store.
\<close>

definition rescale_column :: "store \<Rightarrow> ref \<Rightarrow> string \<Rightarrow> real \<Rightarrow> exn + store" where
  "rescale_column h r name k =
     (case df_getitem (h ! r) name of
        Inl e \<Rightarrow> Inl e
      | Inr c \<Rightarrow>
          (case apply_truediv c k of
             Inl e \<Rightarrow> Inl e
           | Inr c' \<Rightarrow>
               (case loc_setitem (h ! r) name c' of
                  Inl e \<Rightarrow> Inl e
                | Inr d' \<Rightarrow> Inr (h[r := d']))))"

text \<open>
  \<^verbatim>\<open>convert_time_to_minutes(data, time_col, time_unit)\<close>. The result is the returned
  reference or the exception raised, the store afterwards, and the messages shown.
\<close>

definition convert_time_to_minutes ::
  "store \<Rightarrow> ref \<Rightarrow> string \<Rightarrow> string \<Rightarrow> (exn + ref) \<times> store \<times> ui_event list" where
  "convert_time_to_minutes h data time_col time_unit =
     (let (data_copy, h1) = df_copy h data in
      if time_unit = ''Segundos'' then
        (case rescale_column h1 data_copy time_col 60 of
           Inl e \<Rightarrow> (Inl e, h1, [])
         | Inr h2 \<Rightarrow> (Inr data_copy, h2, [Msg Info Converted_from_seconds]))
      else if time_unit = ''Milisegundos'' then
        (case rescale_column h1 data_copy time_col 60000 of
           Inl e \<Rightarrow> (Inl e, h1, [])
         | Inr h2 \<Rightarrow> (Inr data_copy, h2, [Msg Info Converted_from_milliseconds]))
      else if time_unit = ''Minutos'' then
        (Inr data_copy, h1, [Msg Info Already_in_minutes])
      else
        (Inr data_copy, h1, [Msg Warning (Unknown_time_unit time_unit)]))"

text \<open>The options of the time unit selector of \<^verbatim>\<open>main\<close>.\<close>

definition time_unit_options :: "string list" where
  "time_unit_options = [''Segundos'', ''Minutos'', ''Milissegundos'']"

section \<open>The Peak Analysis Adapter\<close>

text \<open>
  The chromatogram library is external: its constructor and its fit routine are
  parameters. Each of them returns or raises. The type \<open>'c\<close> is the library's
  chromatogram object.
\<close>

datatype pval = PBool bool | PNum real | PInt int

text \<open>
  Lines 10 to 19: the import of the library sets the flag \<^verbatim>\<open>HPLC_LIB_AVAILABLE\<close> once,
  and shows two messages when it fails.
\<close>

definition import_events :: "bool \<Rightarrow> ui_event list" where
  "import_events HPLC_LIB_AVAILABLE =
     (if HPLC_LIB_AVAILABLE then []
      else [Msg Error Hplc_library_not_found, Msg Info Peak_features_unavailable])"

record 'c hplc_lib =
  Chromatogram :: "dataframe \<Rightarrow> string \<Rightarrow> string \<Rightarrow> exn + 'c"
  fit_peaks :: "'c \<Rightarrow> pval \<Rightarrow> pval \<Rightarrow> pval \<Rightarrow> pval \<Rightarrow> exn + dataframe"

text \<open>\<^verbatim>\<open>params[key]\<close>\<close>

definition dict_getitem :: "(string \<rightharpoonup> pval) \<Rightarrow> string \<Rightarrow> exn + pval" where
  "dict_getitem params k = (case params k of None \<Rightarrow> Inl (KeyError k) | Some v \<Rightarrow> Inr v)"

text \<open>
  The body of the \<^verbatim>\<open>try\<close> block of \<^verbatim>\<open>process_chromatogram_hplc\<close>: what it returns
  or raises, and the messages shown until then. The arguments of \<^verbatim>\<open>fit_peaks\<close> are
  evaluated in the order they are written.
\<close>

definition hplc_try_body ::
  "'c hplc_lib \<Rightarrow> dataframe \<Rightarrow> string \<Rightarrow> string \<Rightarrow> (string \<rightharpoonup> pval)
     \<Rightarrow> (exn + ('c option \<times> dataframe)) \<times> ui_event list" where
  "hplc_try_body lib data_df time_col signal_col params =
     (let evs0 = [Msg Info Processing_with_hplc] in
      if time_col \<notin> set (columns data_df) \<or> signal_col \<notin> set (columns data_df) then
        (Inr (None, empty_frame), evs0 @ [Msg Error (Columns_not_found time_col signal_col)])
      else
        (case Chromatogram lib data_df time_col signal_col of
           Inl e \<Rightarrow> (Inl e, evs0)
         | Inr cromatograma \<Rightarrow>
         (case dict_getitem params ''correct_baseline'' of
           Inl e \<Rightarrow> (Inl e, evs0)
         | Inr cb \<Rightarrow>
         (case dict_getitem params ''approx_peak_width'' of
           Inl e \<Rightarrow> (Inl e, evs0)
         | Inr pw \<Rightarrow>
         (case dict_getitem params ''buffer'' of
           Inl e \<Rightarrow> (Inl e, evs0)
         | Inr bf \<Rightarrow>
         (case dict_getitem params ''prominence'' of
           Inl e \<Rightarrow> (Inl e, evs0)
         | Inr pr \<Rightarrow>
         (case fit_peaks lib cromatograma cb pw bf pr of
           Inl e \<Rightarrow> (Inl e, evs0)
         | Inr dados_picos \<Rightarrow>
             (Inr (Some cromatograma, dados_picos),
              evs0 @ [Msg Success Peak_analysis_done]))))))))"

text \<open>
  \<^verbatim>\<open>process_chromatogram_hplc(data_df, time_col, signal_col, params)\<close>, with the module's
  flag \<^verbatim>\<open>HPLC_LIB_AVAILABLE\<close> as its first argument. The result is the returned pair and
  the messages shown.
\<close>

definition process_chromatogram_hplc ::
  "bool \<Rightarrow> 'c hplc_lib \<Rightarrow> dataframe \<Rightarrow> string \<Rightarrow> string \<Rightarrow> (string \<rightharpoonup> pval)
     \<Rightarrow> ('c option \<times> dataframe) \<times> ui_event list" where
  "process_chromatogram_hplc HPLC_LIB_AVAILABLE lib data_df time_col signal_col params =
     (if \<not> HPLC_LIB_AVAILABLE then
        ((None, empty_frame), [Msg Error Hplc_unavailable_cannot_process])
      else
        (case hplc_try_body lib data_df time_col signal_col params of
           (Inr res, evs) \<Rightarrow> (res, evs)
         | (Inl e, evs) \<Rightarrow>
             ((None, empty_frame),
              evs @ [Msg Error (Hplc_processing_error (exn_str e)), Exception_shown e])))"

section \<open>The File Ingestor\<close>

text \<open>
  The uploaded bytes are held in a \<^verbatim>\<open>BytesIO\<close> buffer: the content and the read
  position. \<^verbatim>\<open>pandas.read_csv\<close> is external: a parameter gives what it parses from the
  bytes it is handed (a table, or the exception it raises), another how many of them it
  consumes. It reads from the current position of the buffer.
\<close>

type_synonym byte = "8 word"

record buffer =
  content :: "byte list"
  pos :: nat

datatype encoding = Utf8 | Latin1

record csv_reader =
  parse_csv :: "byte list \<Rightarrow> string \<Rightarrow> nat option \<Rightarrow> encoding \<Rightarrow> exn + dataframe"
  consumed :: "byte list \<Rightarrow> string \<Rightarrow> nat option \<Rightarrow> encoding \<Rightarrow> nat"

definition seek :: "buffer \<Rightarrow> nat \<Rightarrow> buffer" where
  "seek b p = b\<lparr>pos := p\<rparr>"

definition read_csv ::
  "csv_reader \<Rightarrow> buffer \<Rightarrow> string \<Rightarrow> nat option \<Rightarrow> encoding \<Rightarrow> (exn + dataframe) \<times> buffer" where
  "read_csv rd b delimiter nrows enc =
     (let rest = drop (pos b) (content b) in
      (parse_csv rd rest delimiter nrows enc,
       b\<lparr>pos := pos b + min (consumed rd rest delimiter nrows enc) (length rest)\<rparr>))"

text \<open>Lines 155 to 162 of \<^verbatim>\<open>main\<close>: the preview, the first ten rows.\<close>

definition load_preview ::
  "csv_reader \<Rightarrow> buffer \<Rightarrow> string \<Rightarrow> (exn + dataframe) \<times> buffer" where
  "load_preview rd file_buffer delimiter =
     (let b0 = seek file_buffer 0;
          (r, b1) = read_csv rd b0 delimiter (Some 10) Utf8 in
      case r of
        Inl UnicodeDecodeError \<Rightarrow> read_csv rd (seek b1 0) delimiter (Some 10) Latin1
      | _ \<Rightarrow> (r, b1))"

text \<open>Lines 172 to 177: the whole file, for the dataset information and the columns.\<close>

definition load_full_info ::
  "csv_reader \<Rightarrow> buffer \<Rightarrow> string \<Rightarrow> (exn + dataframe) \<times> buffer" where
  "load_full_info rd file_buffer delimiter =
     (let b0 = seek file_buffer 0;
          (r, b1) = read_csv rd b0 delimiter None Utf8 in
      case r of
        Inl UnicodeDecodeError \<Rightarrow> read_csv rd (seek b1 0) delimiter None Latin1
      | _ \<Rightarrow> (r, b1))"

text \<open>Lines 259 to 264: the whole file again, for processing.\<close>

definition load_for_processing ::
  "csv_reader \<Rightarrow> buffer \<Rightarrow> string \<Rightarrow> (exn + dataframe) \<times> buffer" where
  "load_for_processing rd file_buffer delimiter =
     (let b0 = seek file_buffer 0;
          (r, b1) = read_csv rd b0 delimiter None Utf8 in
      case r of
        Inl UnicodeDecodeError \<Rightarrow> read_csv rd (seek b1 0) delimiter None Latin1
      | _ \<Rightarrow> (r, b1))"

text \<open>
  The policy in the specification's words: decode as UTF-8 first; on a decode failure,
  retry with Latin-1. It is stated on the bytes of the file, with the chosen delimiter
  and row limit.
\<close>

definition fallback_policy ::
  "csv_reader \<Rightarrow> byte list \<Rightarrow> string \<Rightarrow> nat option \<Rightarrow> exn + dataframe" where
  "fallback_policy rd bytes delimiter nrows =
     (if parse_csv rd bytes delimiter nrows Utf8 = Inl UnicodeDecodeError
      then parse_csv rd bytes delimiter nrows Latin1
      else parse_csv rd bytes delimiter nrows Utf8)"

section \<open>The flow of \<open>main\<close>\<close>

text \<open>
  What the user does in one run of the script: the file uploaded, and the state of each
  widget. A selector holds the position chosen among its options, or nothing when the
  user left the default.
\<close>

record user_input =
  uploaded_file :: "byte list option"
  delimiter_choice :: string
  time_col_choice :: "nat option"
  signal_col_choice :: "nat option"
  time_unit_choice :: "nat option"
  process_clicked :: bool
  correct_baseline :: bool
  approx_peak_width :: real
  buffer_points :: int
  prominence :: real

text \<open>How a run ends: at the end of the script, or at \<^verbatim>\<open>st.stop()\<close>.\<close>

datatype outcome = Finished | Stopped

text \<open>
  \<^verbatim>\<open>st.selectbox(label, options, index=...)\<close>: the option at the chosen position, by
  default the one at \<open>index\<close>; nothing when there is no such option.
\<close>

definition selectbox :: "string list \<Rightarrow> nat \<Rightarrow> nat option \<Rightarrow> string option" where
  "selectbox options index choice =
     (let i = (case choice of None \<Rightarrow> index | Some j \<Rightarrow> j) in
      if i < length options then Some (options ! i) else None)"

text \<open>\<^verbatim>\<open>list.index(x)\<close>, called only where \<open>x\<close> is in the list.\<close>

fun list_index :: "'a list \<Rightarrow> 'a \<Rightarrow> nat" where
  "list_index [] x = 0"
| "list_index (y # ys) x = (if y = x then 0 else Suc (list_index ys x))"

definition default_time_col_index :: "string list \<Rightarrow> nat" where
  "default_time_col_index available_columns =
     (if ''time'' \<in> set available_columns then list_index available_columns ''time''
      else if ''tempo'' \<in> set available_columns then list_index available_columns ''tempo''
      else 0)"

definition default_signal_col_index :: "string list \<Rightarrow> nat" where
  "default_signal_col_index available_columns =
     (if ''signal'' \<in> set available_columns then list_index available_columns ''signal''
      else if ''sinal'' \<in> set available_columns then list_index available_columns ''sinal''
      else if ''intensity'' \<in> set available_columns
        then list_index available_columns ''intensity''
      else if length available_columns > 1 then 1 else 0)"

text \<open>The analysis parameters: the sidebar's controls, or the defaults of the source.\<close>

definition analysis_params :: "bool \<Rightarrow> user_input \<Rightarrow> (string \<rightharpoonup> pval)" where
  "analysis_params HPLC_LIB_AVAILABLE ui =
     (if HPLC_LIB_AVAILABLE then
        [''correct_baseline'' \<mapsto> PBool (correct_baseline ui),
         ''approx_peak_width'' \<mapsto> PNum (approx_peak_width ui),
         ''buffer'' \<mapsto> PInt (buffer_points ui),
         ''prominence'' \<mapsto> PNum (prominence ui)]
      else
        [''correct_baseline'' \<mapsto> PBool False,
         ''approx_peak_width'' \<mapsto> PNum (1 / 10),
         ''buffer'' \<mapsto> PInt 100,
         ''prominence'' \<mapsto> PNum (2 / 100)])"

text \<open>The two handlers of \<^verbatim>\<open>main\<close>: around the file reading, and around the processing.\<close>

definition outer_except :: "string \<Rightarrow> exn \<Rightarrow> ui_event list" where
  "outer_except delimiter e =
     [Msg Error (File_read_error delimiter (exn_str e)), Msg Info Try_other_delimiter,
      Exception_shown e]"

definition inner_except :: "exn \<Rightarrow> ui_event list" where
  "inner_except e = [Msg Error (Data_processing_error (exn_str e)), Exception_shown e]"

text \<open>\<^verbatim>\<open>shape[0]\<close>, the number of rows.\<close>

definition n_rows :: "dataframe \<Rightarrow> nat" where
  "n_rows d = (case d of [] \<Rightarrow> 0 | (n, c) # rest \<Rightarrow> col_len c)"

text \<open>
  The statistics of the preview: \<^verbatim>\<open>describe()\<close> raises on a table with no columns, and
  the source shows a warning instead.
\<close>

definition describe_events :: "dataframe \<Rightarrow> ui_event list" where
  "describe_events data_preview =
     (if columns data_preview = []
      then [Msg Warning (Describe_failed ''Cannot describe a DataFrame without columns'')]
      else [Describe_shown data_preview])"

text \<open>Lines 295 to 310: the plot of the chromatogram.\<close>

definition plot_events :: "dataframe \<Rightarrow> string \<Rightarrow> string \<Rightarrow> dataframe \<Rightarrow> ui_event list" where
  "plot_events data_df time_col signal_col dados_picos =
     (case (map_of data_df time_col, map_of data_df signal_col) of
        (Some t, Some s) \<Rightarrow>
          [Plot_curve t s] @
          (case (df_empty dados_picos, map_of dados_picos ''rt'', map_of dados_picos ''height'') of
             (False, Some rt, Some height) \<Rightarrow> [Plot_peaks rt height]
           | _ \<Rightarrow> []) @
          [Axis_labels (Some time_col) (Some signal_col)]
      | _ \<Rightarrow> [Axis_labels None None, Msg Error Cannot_plot])"

text \<open>
  The statistics of a column of the peak table. A statistic of no numbers is NaN
  (\<open>None\<close>); on a textual column computing or formatting it raises.
\<close>

definition as_floats :: "column \<Rightarrow> real list option" where
  "as_floats c =
     (case c of NumCol xs \<Rightarrow> Some xs | IntCol ns \<Rightarrow> Some (map real_of_int ns) | TxtCol ss \<Rightarrow> None)"

definition series_mean :: "column \<Rightarrow> exn + real option" where
  "series_mean c =
     (case as_floats c of
        None \<Rightarrow> Inl TypeError
      | Some [] \<Rightarrow> Inr None
      | Some (x # xs) \<Rightarrow> Inr (Some (sum_list (x # xs) / real (length (x # xs)))))"

definition series_max :: "column \<Rightarrow> exn + real option" where
  "series_max c =
     (case as_floats c of
        None \<Rightarrow> Inl ValueError
      | Some [] \<Rightarrow> Inr None
      | Some (x # xs) \<Rightarrow> Inr (Some (fold max xs x)))"

definition series_min :: "column \<Rightarrow> exn + real option" where
  "series_min c =
     (case as_floats c of
        None \<Rightarrow> Inl ValueError
      | Some [] \<Rightarrow> Inr None
      | Some (x # xs) \<Rightarrow> Inr (Some (fold min xs x)))"

definition series_sum :: "column \<Rightarrow> exn + real option" where
  "series_sum c =
     (case as_floats c of
        None \<Rightarrow> Inl ValueError
      | Some xs \<Rightarrow> Inr (Some (sum_list xs)))"

text \<open>The metrics are shown one after the other, until one of them raises.\<close>

fun run_metrics :: "(metric_id \<times> (exn + real option)) list \<Rightarrow> ui_event list \<times> exn option" where
  "run_metrics [] = ([], None)"
| "run_metrics ((m, Inl e) # rest) = ([], Some e)"
| "run_metrics ((m, Inr v) # rest) =
     (let (evs, r) = run_metrics rest in (Metric m v # evs, r))"

text \<open>Lines 319 to 359: the panel of information on the peaks.\<close>

definition info_panel :: "bool \<Rightarrow> dataframe \<Rightarrow> ui_event list \<times> exn option" where
  "info_panel HPLC_LIB_AVAILABLE dados_picos =
     (if HPLC_LIB_AVAILABLE then
        (if \<not> df_empty dados_picos then
           (let evs0 = [Metric Peak_count (Some (real (n_rows dados_picos))),
                        Show_frame dados_picos, Download_button dados_picos,
                        Header Peak_statistics] in
            case (map_of dados_picos ''height'', map_of dados_picos ''area'') of
              (Some hc, Some ac) \<Rightarrow>
                (let (evs, r) = run_metrics
                   [(Mean_height, series_mean hc), (Max_height, series_max hc),
                    (Min_height, series_min hc), (Total_area, series_sum ac),
                    (Mean_area, series_mean ac), (Max_area, series_max ac)]
                 in (evs0 @ evs, r))
            | _ \<Rightarrow> (evs0, None))
         else ([Msg Warning No_peaks_detected], None))
      else ([Msg Info Peak_analysis_requires_hplc], None))"

text \<open>
  The top level of the module, lines 1 to 96 and 399 to 400. The import at line 13
  binds the name \<^verbatim>\<open>Chromatogram\<close> or fails, and the handler of line 17 goes on. The
  \<^verbatim>\<open>def\<close> statement of line 52 evaluates its annotations when it is executed, as CPython
  does before version 3.14, and its return annotation names \<^verbatim>\<open>Chromatogram\<close>: where
  the import failed the name is unbound and the statement raises \<^verbatim>\<open>NameError\<close>, which
  nothing catches. So the module is loaded only with the library, the argument of
  \<open>Loaded\<close>, and with the flag set: these are the globals the functions of the module
  read.
\<close>

datatype 'c module_state = Loaded "'c hplc_lib"

fun hplc_library :: "'c module_state \<Rightarrow> 'c hplc_lib" where
  "hplc_library (Loaded lib) = lib"

fun hplc_lib_available :: "'c module_state \<Rightarrow> bool" where
  "hplc_lib_available (Loaded lib) = True"

definition load_module :: "'c hplc_lib option \<Rightarrow> (exn + 'c module_state) \<times> ui_event list" where
  "load_module imported =
     (let HPLC_LIB_AVAILABLE = (imported \<noteq> None);
          evs = import_events HPLC_LIB_AVAILABLE in
      case imported of
        None \<Rightarrow> (Inl (NameError ''Chromatogram''), evs)
      | Some lib \<Rightarrow> (Inr (Loaded lib), evs))"

text \<open>
  Lines 257 to 364: what the button starts, once both columns are selected. The file is
  parsed again, the time column converted, the peaks analysed when the library is
  there, and the results shown. An exception anywhere is shown by the handler.
\<close>

definition process_stage ::
  "'c module_state \<Rightarrow> csv_reader \<Rightarrow> buffer \<Rightarrow> string \<Rightarrow> string \<Rightarrow> string \<Rightarrow> string
     \<Rightarrow> (string \<rightharpoonup> pval) \<Rightarrow> ui_event list" where
  "process_stage g rd file_buffer delimiter time_col signal_col time_unit params =
     (let HPLC_LIB_AVAILABLE = hplc_lib_available g in
      case load_for_processing rd file_buffer delimiter of
        (Inl e, b) \<Rightarrow> inner_except e
      | (Inr parsed, b) \<Rightarrow>
          (case convert_time_to_minutes [parsed] 0 time_col time_unit of
             (Inl e, h, evc) \<Rightarrow> evc @ inner_except e
           | (Inr r, h, evc) \<Rightarrow>
               (let data_df = h ! r;
                    ((cromatograma, dados_picos), evp) =
                      (if HPLC_LIB_AVAILABLE
                       then process_chromatogram_hplc HPLC_LIB_AVAILABLE (hplc_library g)
                              data_df time_col signal_col params
                       else ((None, empty_frame), [Msg Warning Hplc_unavailable_peaks_skipped]));
                    (evi, raised) = info_panel HPLC_LIB_AVAILABLE dados_picos
                in evc @ evp @ [Header Results_section, Header Chromatogram_plot]
                   @ plot_events data_df time_col signal_col dados_picos
                   @ [Header Peak_info] @ evi
                   @ (case raised of None \<Rightarrow> [] | Some e \<Rightarrow> inner_except e))))"

text \<open>\<^verbatim>\<open>not name\<close>, for the value of a selector: nothing selected, or the empty string.\<close>

definition not_selected :: "string option \<Rightarrow> bool" where
  "not_selected name = (case name of None \<Rightarrow> True | Some n \<Rightarrow> n = [])"

text \<open>
  Lines 198 to 364: the configuration of the columns, from the table parsed for the
  dataset information, and the processing. The check on the columns comes first.
\<close>

definition column_stage ::
  "'c module_state \<Rightarrow> csv_reader \<Rightarrow> user_input \<Rightarrow> buffer \<Rightarrow> dataframe
     \<Rightarrow> ui_event list \<times> outcome" where
  "column_stage g rd ui file_buffer full_data_info =
     (let available_columns = columns full_data_info in
      if available_columns = [] then
        ([Header Column_config_section, Msg Error No_columns_detected], Stopped)
      else
        (let ti = default_time_col_index available_columns;
             si = default_signal_col_index available_columns;
             time_col = selectbox available_columns ti (time_col_choice ui);
             signal_col = selectbox available_columns si (signal_col_choice ui);
             time_unit = selectbox time_unit_options 0 (time_unit_choice ui);
             evs = [Header Column_config_section,
                    Selectbox Time_column_selector available_columns ti,
                    Selectbox Signal_column_selector available_columns si,
                    Selectbox Time_unit_selector time_unit_options 0]
         in
           if \<not> process_clicked ui then (evs, Finished)
           else if not_selected time_col \<or> not_selected signal_col then
             (evs @ [Msg Warning Select_time_and_signal], Finished)
           else
             (evs @ process_stage g rd file_buffer (delimiter_choice ui)
                      (case time_col of Some n \<Rightarrow> n | None \<Rightarrow> [])
                      (case signal_col of Some n \<Rightarrow> n | None \<Rightarrow> [])
                      (case time_unit of Some u \<Rightarrow> u | None \<Rightarrow> ''None'')
                      (analysis_params (hplc_lib_available g) ui),
              Finished)))"

text \<open>
  Lines 141 to 370: the flow on an uploaded file. An exception of a parse is shown by
  the outer handler, and the run goes on to its end.
\<close>

definition file_flow ::
  "'c module_state \<Rightarrow> csv_reader \<Rightarrow> user_input \<Rightarrow> byte list \<Rightarrow> ui_event list \<times> outcome" where
  "file_flow g rd ui bytes =
     (let file_buffer = \<lparr>content = bytes, pos = 0\<rparr>;
          delimiter = delimiter_choice ui in
      case load_preview rd file_buffer delimiter of
        (Inl e, b1) \<Rightarrow> (outer_except delimiter e, Finished)
      | (Inr data_preview, b1) \<Rightarrow>
          (let evs1 = [Msg Success File_loaded_preview, Show_frame data_preview] in
           case load_full_info rd b1 delimiter of
             (Inl e, b2) \<Rightarrow> (evs1 @ outer_except delimiter e, Finished)
           | (Inr full_data_info, b2) \<Rightarrow>
               (let evs2 = evs1 @
                      [Dataset_info (n_rows full_data_info) (length (columns full_data_info))
                         (columns full_data_info)] @
                      describe_events data_preview;
                    (evs3, out) = column_stage g rd ui b2 full_data_info
                in (evs2 @ evs3, out))))"

definition main ::
  "'c module_state \<Rightarrow> csv_reader \<Rightarrow> user_input \<Rightarrow> ui_event list \<times> outcome" where
  "main g rd ui =
     (let HPLC_LIB_AVAILABLE = hplc_lib_available g;
          evs0 = (if HPLC_LIB_AVAILABLE then [] else [Msg Warning Analysis_parameters_disabled])
                 @ [Header Upload_section] in
      case uploaded_file ui of
        None \<Rightarrow> (evs0 @ [Msg Info Please_upload_file, Header Expected_format_section], Finished)
      | Some bytes \<Rightarrow>
          (let (evs, out) = file_flow g rd ui bytes in (evs0 @ evs, out)))"

text \<open>
  A run of the script: the module is loaded, and its last statement calls \<open>main\<close>. The
  run ends with \<open>main\<close>, or with the exception that the top level raised.
\<close>

datatype script_end = Ended outcome | Uncaught exn

definition run_script ::
  "'c hplc_lib option \<Rightarrow> csv_reader \<Rightarrow> user_input \<Rightarrow> ui_event list \<times> script_end" where
  "run_script imported rd ui =
     (case load_module imported of
        (Inl e, evs0) \<Rightarrow> (evs0, Uncaught e)
      | (Inr g, evs0) \<Rightarrow> (let (evs, out) = main g rd ui in (evs0 @ evs, Ended out)))"

section \<open>Reading results\<close>

text \<open>
  What \<^verbatim>\<open>convert_time_to_minutes\<close> returned: the table behind the returned reference,
  a column of it, and the messages shown.
\<close>

definition returned_frame :: "(exn + ref) \<times> store \<times> ui_event list \<Rightarrow> dataframe option" where
  "returned_frame res = (case res of (Inr r, h, evs) \<Rightarrow> Some (h ! r) | (Inl e, h, evs) \<Rightarrow> None)"

definition column_of :: "dataframe option \<Rightarrow> string \<Rightarrow> column option" where
  "column_of d name = (case d of None \<Rightarrow> None | Some f \<Rightarrow> map_of f name)"

definition shown :: "(exn + ref) \<times> store \<times> ui_event list \<Rightarrow> ui_event list" where
  "shown res = snd (snd res)"

section \<open>The preview and the full dataset\<close>

text \<open>\<^verbatim>\<open>DataFrame.head(n)\<close>: the first \<open>n\<close> rows of every column.\<close>

fun take_rows :: "nat \<Rightarrow> column \<Rightarrow> column" where
  "take_rows n (NumCol xs) = NumCol (take n xs)"
| "take_rows n (IntCol ns) = IntCol (take n ns)"
| "take_rows n (TxtCol ss) = TxtCol (take n ss)"

definition df_head :: "nat \<Rightarrow> dataframe \<Rightarrow> dataframe" where
  "df_head n d = map (\<lambda>(name, c). (name, take_rows n c)) d"

text \<open>The first rows of what a parse returned; an exception stays what it is.\<close>

definition head_of_result :: "nat \<Rightarrow> exn + dataframe \<Rightarrow> exn + dataframe" where
  "head_of_result n r = (case r of Inl e \<Rightarrow> Inl e | Inr d \<Rightarrow> Inr (df_head n d))"

text \<open>
  A property a parser may have on a file: under each encoding, the parse limited to
  ten rows is the first ten rows of the parse of the whole file.
\<close>

definition row_limit_is_prefix :: "csv_reader \<Rightarrow> byte list \<Rightarrow> string \<Rightarrow> bool" where
  "row_limit_is_prefix rd bytes delimiter =
     (parse_csv rd bytes delimiter (Some 10) Utf8
        = head_of_result 10 (parse_csv rd bytes delimiter None Utf8)
    \<and> parse_csv rd bytes delimiter (Some 10) Latin1
        = head_of_result 10 (parse_csv rd bytes delimiter None Latin1))"

section \<open>Sample inputs\<close>

text \<open>
  Concrete inputs, at which the properties below are evaluated. A sample reader
  tabulates what \<^verbatim>\<open>pandas.read_csv\<close> returns on one file, given by its bytes, with the
  comma as delimiter; it consumes the whole file.

  The first file is the one of the specification's first scenario, a header
  \<^verbatim>\<open>Tempo,Sinal\<close> and the rows \<^verbatim>\<open>0.0,0.0\<close>, \<^verbatim>\<open>1.0,60.0\<close> and \<^verbatim>\<open>2.0,0.0\<close>.
\<close>

definition sample_bytes :: "byte list" where
  "sample_bytes =
     [84, 101, 109, 112, 111, 44, 83, 105, 110, 97, 108, 10,
      48, 46, 48, 44, 48, 46, 48, 10,
      49, 46, 48, 44, 54, 48, 46, 48, 10,
      50, 46, 48, 44, 48, 46, 48, 10]"

definition sample_frame :: dataframe where
  "sample_frame = [(''Tempo'', NumCol [0, 1, 2]), (''Sinal'', NumCol [0, 60, 0])]"

definition sample_reader :: csv_reader where
  "sample_reader =
     \<lparr>parse_csv = (\<lambda>bytes delimiter nrows enc.
        if bytes = sample_bytes \<and> delimiter = '','' then Inr sample_frame
        else Inl (LibraryError ''not tabulated'')),
      consumed = (\<lambda>bytes delimiter nrows enc. length bytes)\<rparr>"

text \<open>
  A file written with semicolons, the header \<^verbatim>\<open>Tempo;Sinal\<close> and the rows \<^verbatim>\<open>0.0;0.0\<close>
  and \<^verbatim>\<open>1.0;60.0\<close>: read with the comma as delimiter, every line is one field, and the
  table has one column of text.
\<close>

definition semicolon_bytes :: "byte list" where
  "semicolon_bytes =
     [84, 101, 109, 112, 111, 59, 83, 105, 110, 97, 108, 10,
      48, 46, 48, 59, 48, 46, 48, 10,
      49, 46, 48, 59, 54, 48, 46, 48, 10]"

definition semicolon_reader :: csv_reader where
  "semicolon_reader =
     \<lparr>parse_csv = (\<lambda>bytes delimiter nrows enc.
        if bytes = semicolon_bytes \<and> delimiter = '',''
        then Inr [(''Tempo;Sinal'', TxtCol [''0.0;0.0'', ''1.0;60.0''])]
        else Inl (LibraryError ''not tabulated'')),
      consumed = (\<lambda>bytes delimiter nrows enc. length bytes)\<rparr>"

text \<open>
  A file in Latin-1: its header holds the byte 233, which no UTF-8 text holds at that
  place. The label of the column is shortened to \<open>t\<close> here.
\<close>

definition latin1_bytes :: "byte list" where
  "latin1_bytes = [116, 233, 10, 49, 10, 50, 10]"

definition latin1_reader :: csv_reader where
  "latin1_reader =
     \<lparr>parse_csv = (\<lambda>bytes delimiter nrows enc.
        if bytes = latin1_bytes \<and> delimiter = '','' then
          (case enc of
             Utf8 \<Rightarrow> Inl UnicodeDecodeError
           | Latin1 \<Rightarrow> Inr [(''t'', IntCol [1, 2])])
        else Inl (LibraryError ''not tabulated'')),
      consumed = (\<lambda>bytes delimiter nrows enc. length bytes)\<rparr>"

text \<open>
  A file of one column \<^verbatim>\<open>a\<close> with the rows 10, 20 and so on to 100, and then
  \<^verbatim>\<open>x\<close>. pandas infers the type of a column from the rows it reads: the first ten
  rows alone are integers, and the column of the whole file is text.
\<close>

definition mixed_bytes :: "byte list" where
  "mixed_bytes =
     [97, 10, 49, 48, 10, 50, 48, 10, 51, 48, 10, 52, 48, 10, 53, 48, 10, 54, 48, 10,
      55, 48, 10, 56, 48, 10, 57, 48, 10, 49, 48, 48, 10, 120, 10]"

definition mixed_reader :: csv_reader where
  "mixed_reader =
     \<lparr>parse_csv = (\<lambda>bytes delimiter nrows enc.
        if bytes = mixed_bytes \<and> delimiter = '','' then
          (case nrows of
             Some n \<Rightarrow> Inr [(''a'', IntCol [10, 20, 30, 40, 50, 60, 70, 80, 90, 100])]
           | None \<Rightarrow>
               Inr [(''a'', TxtCol [''10'', ''20'', ''30'', ''40'', ''50'', ''60'', ''70'', ''80'',
                                    ''90'', ''100'', ''x''])])
        else Inl (LibraryError ''not tabulated'')),
      consumed = (\<lambda>bytes delimiter nrows enc. length bytes)\<rparr>"

text \<open>
  A chromatogram library that finds one peak, and one whose fit routine raises. The
  chromatogram object is a number.
\<close>

definition sample_lib :: "nat hplc_lib" where
  "sample_lib =
     \<lparr>Chromatogram = (\<lambda>d time_col signal_col. Inr 0),
      fit_peaks = (\<lambda>c cb pw bf pr.
        Inr [(''rt'', NumCol [1]), (''height'', NumCol [60]), (''area'', NumCol [30])])\<rparr>"

definition failing_lib :: "nat hplc_lib" where
  "failing_lib =
     \<lparr>Chromatogram = (\<lambda>d time_col signal_col. Inr 0),
      fit_peaks = (\<lambda>c cb pw bf pr. Inl (LibraryError ''fit did not converge''))\<rparr>"

text \<open>The default parameters of the source, and a user who uploads a file and no more.\<close>

definition sample_params :: "string \<rightharpoonup> pval" where
  "sample_params =
     [''correct_baseline'' \<mapsto> PBool False, ''approx_peak_width'' \<mapsto> PNum (1 / 10),
      ''buffer'' \<mapsto> PInt 100, ''prominence'' \<mapsto> PNum (2 / 100)]"

definition sample_input :: "byte list \<Rightarrow> user_input" where
  "sample_input bytes =
     \<lparr>uploaded_file = Some bytes, delimiter_choice = '','',
      time_col_choice = None, signal_col_choice = None, time_unit_choice = None,
      process_clicked = False, correct_baseline = False, approx_peak_width = 1 / 10,
      buffer_points = 100, prominence = 2 / 100\<rparr>"

section \<open>The Time Normalizer: properties\<close>

lemma loc_setitem_frame:
  assumes "loc_setitem d name c' = Inr d'" and "map_of d name = Some c"
  shows "columns d' = columns d" and "n \<noteq> name \<Longrightarrow> map_of d' n = map_of d n"
proof -
  from assms obtain c'' where
    d': "d' = map (\<lambda>(n, x). if n = name then (n, c'') else (n, x)) d"
    by (auto simp: loc_setitem_def split: sum.splits)
  show "columns d' = columns d"
    unfolding d' by (induction d) (auto simp: columns_def)
  show "n \<noteq> name \<Longrightarrow> map_of d' n = map_of d n"
    unfolding d' by (induction d) auto
qed

lemma rescale_column_frame:
  assumes "rescale_column h r name k = Inr h2"
  shows "\<exists>d'. h2 = h[r := d'] \<and> columns d' = columns (h ! r)
           \<and> (\<forall>n. n \<noteq> name \<longrightarrow> map_of d' n = map_of (h ! r) n)"
proof -
  from assms obtain c c' d' where g: "map_of (h ! r) name = Some c"
    and s: "loc_setitem (h ! r) name c' = Inr d'" and h2: "h2 = h[r := d']"
    by (auto simp: rescale_column_def df_getitem_def split: option.splits sum.splits)
  from loc_setitem_frame [OF s g] h2 show ?thesis by blast
qed

lemma loc_setitem_float:
  assumes "map_of d name = Some (NumCol xs)"
  shows "\<exists>d'. loc_setitem d name (NumCol ys) = Inr d' \<and> map_of d' name = Some (NumCol ys)"
proof -
  have "map_of (map (\<lambda>(n, x). if n = name then (n, NumCol ys) else (n, x)) d) name
          = Some (NumCol ys)"
    using assms by (induction d) (auto split: if_splits)
  then show ?thesis using assms by (simp add: loc_setitem_def)
qed

lemma rescale_column_float:
  assumes "r < length h" and "map_of (h ! r) name = Some (NumCol xs)"
  shows "\<exists>d'. rescale_column h r name k = Inr (h[r := d'])
           \<and> map_of d' name = Some (NumCol (map (\<lambda>x. x / k) xs))"
  using assms loc_setitem_float [OF assms(2), of "map (\<lambda>x. x / k) xs"]
  by (auto simp: rescale_column_def df_getitem_def)

text \<open>
  On a time column of floating-point numbers the conversion is as C1 says: with the
  values \<open>xs\<close>, the unit "Segundos" gives \<open>x / 60\<close> for every \<open>x\<close>, "Milisegundos"
  \<open>x / 60000\<close>, "Minutos" \<open>x\<close> itself; any other unit gives the input back, with the
  warning naming the unit as the one message.
\<close>

lemma convert_float_column:
  assumes "data < length h" and "map_of (h ! data) time_col = Some (NumCol xs)"
  shows "column_of (returned_frame (convert_time_to_minutes h data time_col ''Segundos'')) time_col
           = Some (NumCol (map (\<lambda>x. x / 60) xs))
       \<and> column_of (returned_frame (convert_time_to_minutes h data time_col ''Milisegundos'')) time_col
           = Some (NumCol (map (\<lambda>x. x / 60000) xs))
       \<and> column_of (returned_frame (convert_time_to_minutes h data time_col ''Minutos'')) time_col
           = Some (NumCol xs)
       \<and> (time_unit \<notin> {''Segundos'', ''Milisegundos'', ''Minutos''} \<longrightarrow>
            returned_frame (convert_time_to_minutes h data time_col time_unit) = Some (h ! data)
          \<and> shown (convert_time_to_minutes h data time_col time_unit)
              = [Msg Warning (Unknown_time_unit time_unit)])"
proof -
  let ?h1 = "h @ [h ! data]"
  have c: "map_of (?h1 ! length h) time_col = Some (NumCol xs)"
    using assms by simp
  have l: "length h < length ?h1" by simp
  from rescale_column_float [OF l c, of 60] obtain d1 where
    r1: "rescale_column ?h1 (length h) time_col 60 = Inr (?h1[length h := d1])"
    and m1: "map_of d1 time_col = Some (NumCol (map (\<lambda>x. x / 60) xs))" by blast
  from rescale_column_float [OF l c, of 60000] obtain d2 where
    r2: "rescale_column ?h1 (length h) time_col 60000 = Inr (?h1[length h := d2])"
    and m2: "map_of d2 time_col = Some (NumCol (map (\<lambda>x. x / 60000) xs))" by blast
  show ?thesis
    using assms
    by (simp add: convert_time_to_minutes_def df_copy_def r1 m1 r2 m2
        returned_frame_def column_of_def shown_def)
qed

text \<open>
  C1 fails on a time column of integers. The file of the rows \<^verbatim>\<open>120,5\<close> and \<^verbatim>\<open>30,7\<close>
  under the header \<^verbatim>\<open>t,s\<close> is read with an integer column \<open>t\<close>; with the unit
  "Segundos" the quotients are 2 and 0.5, writing them into the integer column raises
  \<^verbatim>\<open>TypeError\<close>, and no table is returned, where the claim says 2 and 0.5.
\<close>

theorem integer_time_column_raises:
  "convert_time_to_minutes [[(''t'', IntCol [120, 30]), (''s'', IntCol [5, 7])]] 0 ''t'' ''Segundos''
     = (Inl TypeError,
        [[(''t'', IntCol [120, 30]), (''s'', IntCol [5, 7])],
         [(''t'', IntCol [120, 30]), (''s'', IntCol [5, 7])]],
        [])"
  by (simp add: convert_time_to_minutes_def df_copy_def rescale_column_def df_getitem_def
      loc_setitem_def is_whole_def)

text \<open>
  C2. The time unit selector offers "Milissegundos", its third option, and the normalizer
  recognises "Milisegundos" only: on the option of the selector a column holding 60000
  comes back unchanged with the warning of the unknown unit, where the recognised label
  gives 1.
\<close>

theorem milliseconds_option_falls_through:
  "selectbox time_unit_options 0 (Some 2) = Some ''Milissegundos''
   \<and> convert_time_to_minutes [[(''t'', NumCol [60000]), (''s'', NumCol [1])]] 0 ''t'' ''Milissegundos''
       = (Inr 1,
          [[(''t'', NumCol [60000]), (''s'', NumCol [1])], [(''t'', NumCol [60000]), (''s'', NumCol [1])]],
          [Msg Warning (Unknown_time_unit ''Milissegundos'')])
   \<and> convert_time_to_minutes [[(''t'', NumCol [60000]), (''s'', NumCol [1])]] 0 ''t'' ''Milisegundos''
       = (Inr 1,
          [[(''t'', NumCol [60000]), (''s'', NumCol [1])], [(''t'', NumCol [1]), (''s'', NumCol [1])]],
          [Msg Info Converted_from_milliseconds])"
  by (simp add: selectbox_def time_unit_options_def convert_time_to_minutes_def df_copy_def
      rescale_column_def df_getitem_def loc_setitem_def)

text \<open>
  C8, as amended. Whatever the dataset, the column name and the unit, every object of
  the store before the call, the original dataset among them, is unchanged after it.
  When the function returns, the reference returned is a new object, with the labels
  of the original and, under every label but the time column's, the column of the
  original. The function returns when the unit is neither "Segundos" nor
  "Milisegundos", and when the time column holds floating-point numbers.
\<close>

theorem convert_time_to_minutes_frame:
  assumes "data < length h"
  shows "case convert_time_to_minutes h data time_col time_unit of (res, h', evs) \<Rightarrow>
           take (length h) h' = h
         \<and> (\<forall>r. res = Inr r \<longrightarrow>
               r = length h \<and> length h' = Suc (length h)
             \<and> columns (h' ! r) = columns (h ! data)
             \<and> (\<forall>name. name \<noteq> time_col \<longrightarrow> map_of (h' ! r) name = map_of (h ! data) name))
         \<and> (time_unit \<noteq> ''Segundos'' \<and> time_unit \<noteq> ''Milisegundos'' \<longrightarrow> res = Inr (length h))
         \<and> (\<forall>xs. map_of (h ! data) time_col = Some (NumCol xs) \<longrightarrow> res = Inr (length h))"
proof -
  let ?h1 = "h @ [h ! data]"
  have l: "length h < length ?h1" by simp
  have n: "?h1 ! length h = h ! data" by simp
  have conv: "case (case rescale_column ?h1 (length h) time_col k of
                      Inl e \<Rightarrow> (Inl e, ?h1, [])
                    | Inr h2 \<Rightarrow> (Inr (length h), h2, m)) of (res, h', evs) \<Rightarrow>
           take (length h) h' = h
         \<and> (\<forall>r. res = Inr r \<longrightarrow>
               r = length h \<and> length h' = Suc (length h)
             \<and> columns (h' ! r) = columns (h ! data)
             \<and> (\<forall>name. name \<noteq> time_col \<longrightarrow> map_of (h' ! r) name = map_of (h ! data) name))
         \<and> (\<forall>xs. map_of (h ! data) time_col = Some (NumCol xs) \<longrightarrow> res = Inr (length h))"
    for k m
  proof (cases "rescale_column ?h1 (length h) time_col k")
    case (Inl e)
    have "map_of (h ! data) time_col \<noteq> Some (NumCol xs)" for xs
      using rescale_column_float [OF l, of time_col xs k] Inl by auto
    with Inl show ?thesis by simp
  next
    case (Inr h2)
    from rescale_column_frame [OF Inr] obtain d' where
      "h2 = ?h1[length h := d']" "columns d' = columns (h ! data)"
      "\<forall>n. n \<noteq> time_col \<longrightarrow> map_of d' n = map_of (h ! data) n"
      by (auto simp: n)
    with Inr show ?thesis by simp
  qed
  consider (s) "time_unit = ''Segundos''" | (ms) "time_unit = ''Milisegundos''"
    | (other) "time_unit \<noteq> ''Segundos''" "time_unit \<noteq> ''Milisegundos''" by blast
  then show ?thesis
  proof cases
    case s
    with conv [of "[Msg Info Converted_from_seconds]" 60] show ?thesis
      by (simp add: convert_time_to_minutes_def df_copy_def)
  next
    case ms
    with conv [of "[Msg Info Converted_from_milliseconds]" 60000] show ?thesis
      by (simp add: convert_time_to_minutes_def df_copy_def)
  next
    case other
    then show ?thesis
      by (simp add: convert_time_to_minutes_def df_copy_def)
  qed
qed

theorem convert_time_to_minutes_frame_witness:
  "case convert_time_to_minutes [[(''t'', NumCol [120]), (''s'', NumCol [5])]] 0 ''t'' ''Segundos'' of
     (res, h', evs) \<Rightarrow>
       res = Inr 1
     \<and> h' ! 0 = [(''t'', NumCol [120]), (''s'', NumCol [5])]
     \<and> h' ! 1 = [(''t'', NumCol [2]), (''s'', NumCol [5])]"
  using convert_time_to_minutes_frame [where data = 0
      and h = "[[(''t'', NumCol [120]), (''s'', NumCol [5])]]" and time_col = "''t''"
      and time_unit = "''Segundos''"]
  by (simp add: convert_time_to_minutes_def df_copy_def rescale_column_def df_getitem_def
      loc_setitem_def)

text \<open>
  C8, as stated, fails where the function raises instead of returning a copy: on a
  textual time column with the unit "Segundos".
\<close>

theorem convert_time_to_minutes_raises_on_text:
  "convert_time_to_minutes [[(''t'', TxtCol [''a'']), (''s'', NumCol [1])]] 0 ''t'' ''Segundos''
     = (Inl TypeError,
        [[(''t'', TxtCol [''a'']), (''s'', NumCol [1])], [(''t'', TxtCol [''a'']), (''s'', NumCol [1])]],
        [])"
  by (simp add: convert_time_to_minutes_def df_copy_def rescale_column_def df_getitem_def)

section \<open>The Peak Analysis Adapter: properties\<close>

lemma hplc_try_body_fit:
  assumes "time_col \<in> set (columns d)" and "signal_col \<in> set (columns d)"
    and "Chromatogram lib d time_col signal_col = Inr c"
    and "params ''correct_baseline'' = Some cb"
    and "params ''approx_peak_width'' = Some pw"
    and "params ''buffer'' = Some bf"
    and "params ''prominence'' = Some pr"
  shows "hplc_try_body lib d time_col signal_col params =
           (case fit_peaks lib c cb pw bf pr of
              Inl e \<Rightarrow> (Inl e, [Msg Info Processing_with_hplc])
            | Inr dados_picos \<Rightarrow>
                (Inr (Some c, dados_picos), [Msg Info Processing_with_hplc, Msg Success Peak_analysis_done]))"
  using assms by (simp add: hplc_try_body_def dict_getitem_def Let_def split: sum.splits)

lemma info_panel_no_peaks: "info_panel True empty_frame = ([Msg Warning No_peaks_detected], None)"
  by (simp add: info_panel_def empty_frame_def df_empty_def)

lemma plot_events_no_peaks: "Plot_peaks rt hg \<notin> set (plot_events d time_col signal_col empty_frame)"
  by (simp add: plot_events_def empty_frame_def df_empty_def split: option.splits)

text \<open>
  C3. When the time column or the signal column is not among the columns of the dataset,
  \<^verbatim>\<open>process_chromatogram_hplc\<close> returns no chromatogram and the empty peak table, and
  shows an error: the one on the columns when the library is there, the one on the
  library otherwise. The result does not depend on the library nor on the parameters:
  neither the constructor of the chromatogram nor the fit routine is called, and
  nothing is raised.
\<close>

theorem process_chromatogram_hplc_missing_column:
  assumes "time_col \<notin> set (columns data_df) \<or> signal_col \<notin> set (columns data_df)"
  shows "process_chromatogram_hplc available lib data_df time_col signal_col params =
           ((None, empty_frame),
            if available
            then [Msg Info Processing_with_hplc, Msg Error (Columns_not_found time_col signal_col)]
            else [Msg Error Hplc_unavailable_cannot_process])
       \<and> df_empty (snd (fst (process_chromatogram_hplc available lib data_df time_col signal_col params)))"
  using assms
  by (auto simp: process_chromatogram_hplc_def hplc_try_body_def empty_frame_def df_empty_def)

theorem process_chromatogram_hplc_missing_column_witness:
  "process_chromatogram_hplc True sample_lib sample_frame ''Tempo'' ''sinal'' sample_params
     = ((None, []), [Msg Info Processing_with_hplc, Msg Error (Columns_not_found ''Tempo'' ''sinal'')])"
  using process_chromatogram_hplc_missing_column [where time_col = "''Tempo''"
      and data_df = sample_frame and signal_col = "''sinal''" and available = True
      and lib = sample_lib and params = sample_params]
  by (simp add: columns_def empty_frame_def sample_frame_def)

text \<open>
  C4. When the library is there, the columns exist, the chromatogram is constructed,
  the four parameters are given and the fit routine raises \<open>e\<close>, the adapter returns no
  chromatogram and the empty peak table, and shows the message of \<open>e\<close> and \<open>e\<close> itself;
  nothing is raised. On the empty peak table the panel reports that no peak was
  detected, and the plot has no peak markers.
\<close>

theorem process_chromatogram_hplc_fit_raises:
  assumes "time_col \<in> set (columns d)" and "signal_col \<in> set (columns d)"
    and "Chromatogram lib d time_col signal_col = Inr c"
    and "params ''correct_baseline'' = Some cb"
    and "params ''approx_peak_width'' = Some pw"
    and "params ''buffer'' = Some bf"
    and "params ''prominence'' = Some pr"
    and "fit_peaks lib c cb pw bf pr = Inl e"
  shows "process_chromatogram_hplc True lib d time_col signal_col params =
           ((None, empty_frame),
            [Msg Info Processing_with_hplc, Msg Error (Hplc_processing_error (exn_str e)),
             Exception_shown e])
       \<and> info_panel True empty_frame = ([Msg Warning No_peaks_detected], None)
       \<and> (\<forall>rt hg. Plot_peaks rt hg \<notin> set (plot_events d time_col signal_col empty_frame))"
  using assms(8) hplc_try_body_fit [OF assms(1-7)]
  by (simp add: process_chromatogram_hplc_def info_panel_no_peaks plot_events_no_peaks)

theorem process_chromatogram_hplc_fit_raises_witness:
  "process_chromatogram_hplc True failing_lib sample_frame ''Tempo'' ''Sinal'' sample_params =
     ((None, []),
      [Msg Info Processing_with_hplc,
       Msg Error (Hplc_processing_error ''fit did not converge''),
       Exception_shown (LibraryError ''fit did not converge'')])
 \<and> info_panel True [] = ([Msg Warning No_peaks_detected], None)"
  using process_chromatogram_hplc_fit_raises [where time_col = "''Tempo''" and d = sample_frame
      and signal_col = "''Sinal''" and lib = failing_lib and c = 0 and params = sample_params
      and cb = "PBool False" and pw = "PNum (1 / 10)" and bf = "PInt 100"
      and pr = "PNum (2 / 100)" and e = "LibraryError ''fit did not converge''"]
  by (simp add: sample_frame_def columns_def failing_lib_def sample_params_def empty_frame_def)

text \<open>
  C10. \<^verbatim>\<open>process_chromatogram_hplc\<close> returns a pair on every input, of one of two shapes.
  On success, that is with the library there, the columns present, the four parameters
  given, the constructor having returned a chromatogram and the fit routine a peak
  table, it returns that chromatogram with that peak table. A chromatogram is returned
  in that case only; in every other case the pair is no chromatogram with the empty peak
  table.
\<close>

theorem process_chromatogram_hplc_shapes:
  "(case fst (process_chromatogram_hplc available lib d time_col signal_col params) of
     (Some c, peaks) \<Rightarrow>
        available \<and> time_col \<in> set (columns d) \<and> signal_col \<in> set (columns d)
      \<and> Chromatogram lib d time_col signal_col = Inr c
      \<and> (\<exists>cb pw bf pr.
            params ''correct_baseline'' = Some cb \<and> params ''approx_peak_width'' = Some pw
          \<and> params ''buffer'' = Some bf \<and> params ''prominence'' = Some pr
          \<and> fit_peaks lib c cb pw bf pr = Inr peaks)
   | (None, peaks) \<Rightarrow> peaks = empty_frame \<and> df_empty peaks)
 \<and> (available \<and> time_col \<in> set (columns d) \<and> signal_col \<in> set (columns d)
      \<and> Chromatogram lib d time_col signal_col = Inr c'
      \<and> params ''correct_baseline'' = Some cb' \<and> params ''approx_peak_width'' = Some pw'
      \<and> params ''buffer'' = Some bf' \<and> params ''prominence'' = Some pr'
      \<and> fit_peaks lib c' cb' pw' bf' pr' = Inr peaks'
    \<longrightarrow> process_chromatogram_hplc available lib d time_col signal_col params
          = ((Some c', peaks'), [Msg Info Processing_with_hplc, Msg Success Peak_analysis_done]))"
proof -
  have shape: "case fst (process_chromatogram_hplc available lib d time_col signal_col params) of
     (Some c, peaks) \<Rightarrow>
        available \<and> time_col \<in> set (columns d) \<and> signal_col \<in> set (columns d)
      \<and> Chromatogram lib d time_col signal_col = Inr c
      \<and> (\<exists>cb pw bf pr.
            params ''correct_baseline'' = Some cb \<and> params ''approx_peak_width'' = Some pw
          \<and> params ''buffer'' = Some bf \<and> params ''prominence'' = Some pr
          \<and> fit_peaks lib c cb pw bf pr = Inr peaks)
   | (None, peaks) \<Rightarrow> peaks = empty_frame \<and> df_empty peaks"
    by (auto simp: process_chromatogram_hplc_def hplc_try_body_def dict_getitem_def
        empty_frame_def df_empty_def Let_def split: sum.splits option.splits)
  have success: "process_chromatogram_hplc available lib d time_col signal_col params
          = ((Some c', peaks'), [Msg Info Processing_with_hplc, Msg Success Peak_analysis_done])"
    if "available" "time_col \<in> set (columns d)" "signal_col \<in> set (columns d)"
      "Chromatogram lib d time_col signal_col = Inr c'"
      "params ''correct_baseline'' = Some cb'" "params ''approx_peak_width'' = Some pw'"
      "params ''buffer'' = Some bf'" "params ''prominence'' = Some pr'"
      "fit_peaks lib c' cb' pw' bf' pr' = Inr peaks'"
    using that(1,9) hplc_try_body_fit [OF that(2-8)]
    by (simp add: process_chromatogram_hplc_def)
  from shape success show ?thesis by blast
qed

theorem process_chromatogram_hplc_shapes_witness:
  "process_chromatogram_hplc True sample_lib sample_frame ''Tempo'' ''Sinal'' sample_params
     = ((Some 0, [(''rt'', NumCol [1]), (''height'', NumCol [60]), (''area'', NumCol [30])]),
        [Msg Info Processing_with_hplc, Msg Success Peak_analysis_done])
 \<and> fst (process_chromatogram_hplc True failing_lib sample_frame ''Tempo'' ''Sinal'' sample_params)
     = (None, [])
 \<and> fst (process_chromatogram_hplc False sample_lib sample_frame ''Tempo'' ''Sinal'' sample_params)
     = (None, [])
 \<and> fst (process_chromatogram_hplc True sample_lib sample_frame ''Tempo'' ''Sinal'' Map.empty)
     = (None, [])"
proof -
  have fit: "fit_peaks sample_lib 0 (PBool False) (PNum (1 / 10)) (PInt 100) (PNum (2 / 100))
      = Inr [(''rt'', NumCol [1]), (''height'', NumCol [60]), (''area'', NumCol [30])]"
    by (simp add: sample_lib_def)
  have first: "process_chromatogram_hplc True sample_lib sample_frame ''Tempo'' ''Sinal'' sample_params
     = ((Some 0, [(''rt'', NumCol [1]), (''height'', NumCol [60]), (''area'', NumCol [30])]),
        [Msg Info Processing_with_hplc, Msg Success Peak_analysis_done])"
    using process_chromatogram_hplc_shapes [where available = True and lib = sample_lib
        and d = sample_frame and time_col = "''Tempo''" and signal_col = "''Sinal''"
        and params = sample_params and c' = 0 and cb' = "PBool False" and pw' = "PNum (1 / 10)"
        and bf' = "PInt 100" and pr' = "PNum (2 / 100)"
        and peaks' = "[(''rt'', NumCol [1]), (''height'', NumCol [60]), (''area'', NumCol [30])]"]
      fit
    by (simp add: sample_frame_def columns_def sample_lib_def sample_params_def)
  show ?thesis
    using first
    by (simp add: process_chromatogram_hplc_def hplc_try_body_def dict_getitem_def
        sample_frame_def columns_def failing_lib_def sample_lib_def sample_params_def
        empty_frame_def)
qed


section \<open>The File Ingestor: properties\<close>

lemma ladder:
  "(let b0 = seek b 0; (r, b1) = read_csv rd b0 delimiter nrows Utf8 in
     case r of Inl UnicodeDecodeError \<Rightarrow> read_csv rd (seek b1 0) delimiter nrows Latin1
             | _ \<Rightarrow> (r, b1)) = res
   \<Longrightarrow> fst res = fallback_policy rd (content b) delimiter nrows \<and> content (snd res) = content b"
  by (auto simp: Let_def fallback_policy_def read_csv_def seek_def
      split: prod.splits sum.splits exn.splits)

lemma load_preview_policy:
  "fst (load_preview rd b delimiter) = fallback_policy rd (content b) delimiter (Some 10)"
  and load_preview_content: "content (snd (load_preview rd b delimiter)) = content b"
  using ladder [OF load_preview_def [symmetric]] by simp_all

lemma load_full_info_policy:
  "fst (load_full_info rd b delimiter) = fallback_policy rd (content b) delimiter None"
  and load_full_info_content: "content (snd (load_full_info rd b delimiter)) = content b"
  using ladder [OF load_full_info_def [symmetric]] by simp_all

lemma load_for_processing_policy:
  "fst (load_for_processing rd b delimiter) = fallback_policy rd (content b) delimiter None"
  and load_for_processing_content: "content (snd (load_for_processing rd b delimiter)) = content b"
  using ladder [OF load_for_processing_def [symmetric]] by simp_all

lemma fallback_policy_head:
  assumes "row_limit_is_prefix rd bytes delimiter"
  shows "fallback_policy rd bytes delimiter (Some 10)
           = head_of_result 10 (fallback_policy rd bytes delimiter None)"
  using assms
  by (auto simp: row_limit_is_prefix_def fallback_policy_def head_of_result_def split: sum.splits)

text \<open>
  C6. Each of the three parses of \<open>main\<close>, the preview limited to ten rows and the two
  of the whole file, follows the fallback policy on the bytes of the buffer, with the
  delimiter it is given, wherever the position of the buffer was left: UTF-8 first, and
  Latin-1 from the start when UTF-8 raised a decode error. Where UTF-8 raises a decode
  error and Latin-1 parses, the parse returns the table of Latin-1.
\<close>

theorem ingestor_fallback_policy:
  "fst (load_preview rd b delimiter) = fallback_policy rd (content b) delimiter (Some 10)
 \<and> fst (load_full_info rd b delimiter) = fallback_policy rd (content b) delimiter None
 \<and> fst (load_for_processing rd b delimiter) = fallback_policy rd (content b) delimiter None
 \<and> (parse_csv rd (content b) delimiter (Some 10) Utf8 = Inl UnicodeDecodeError
      \<and> parse_csv rd (content b) delimiter (Some 10) Latin1 = Inr pv
    \<longrightarrow> fst (load_preview rd b delimiter) = Inr pv)
 \<and> (parse_csv rd (content b) delimiter None Utf8 = Inl UnicodeDecodeError
      \<and> parse_csv rd (content b) delimiter None Latin1 = Inr d
    \<longrightarrow> fst (load_full_info rd b delimiter) = Inr d \<and> fst (load_for_processing rd b delimiter) = Inr d)"
  by (simp add: load_preview_policy load_full_info_policy load_for_processing_policy
      fallback_policy_def)

theorem ingestor_fallback_policy_witness:
  "fst (load_preview latin1_reader \<lparr>content = latin1_bytes, pos = 3\<rparr> '','')
     = Inr [(''t'', IntCol [1, 2])]
 \<and> fst (load_full_info latin1_reader \<lparr>content = latin1_bytes, pos = 3\<rparr> '','')
     = Inr [(''t'', IntCol [1, 2])]
 \<and> fst (load_for_processing latin1_reader \<lparr>content = latin1_bytes, pos = 3\<rparr> '','')
     = Inr [(''t'', IntCol [1, 2])]"
  using ingestor_fallback_policy [where rd = latin1_reader
      and b = "\<lparr>content = latin1_bytes, pos = 3\<rparr>" and delimiter = "'',''"
      and pv = "[(''t'', IntCol [1, 2])]" and d = "[(''t'', IntCol [1, 2])]"]
  by (simp add: latin1_reader_def fallback_policy_def)

text \<open>
  C9, as amended. The three parses of a run leave the bytes of the buffer as they
  were; the two parses of the whole file return the same result, which is also what
  the parse returns on the buffer before any read, and parsing the preview again returns
  the preview again. The preview is the first ten rows of the full dataset when the
  parser, under each encoding, returns for a limit of ten rows the first ten rows of
  what it returns for the whole file.
\<close>

theorem repeated_parses_agree:
  "case load_preview rd b delimiter of (preview, b1) \<Rightarrow>
   case load_full_info rd b1 delimiter of (full, b2) \<Rightarrow>
   case load_for_processing rd b2 delimiter of (processed, b3) \<Rightarrow>
       content b3 = content b
     \<and> processed = full
     \<and> full = fst (load_full_info rd b delimiter)
     \<and> fst (load_preview rd b3 delimiter) = preview
     \<and> (row_limit_is_prefix rd (content b) delimiter \<longrightarrow> preview = head_of_result 10 full)"
proof -
  obtain preview b1 where p: "load_preview rd b delimiter = (preview, b1)" by fastforce
  obtain full b2 where f: "load_full_info rd b1 delimiter = (full, b2)" by fastforce
  obtain processed b3 where g: "load_for_processing rd b2 delimiter = (processed, b3)" by fastforce
  have c1: "content b1 = content b" using load_preview_content [of rd b delimiter] p by simp
  have c2: "content b2 = content b" using load_full_info_content [of rd b1 delimiter] f c1 by simp
  have c3: "content b3 = content b"
    using load_for_processing_content [of rd b2 delimiter] g c2 by simp
  have pv: "preview = fallback_policy rd (content b) delimiter (Some 10)"
    using load_preview_policy [of rd b delimiter] p by simp
  have fv: "full = fallback_policy rd (content b) delimiter None"
    using load_full_info_policy [of rd b1 delimiter] f c1 by simp
  have gv: "processed = fallback_policy rd (content b) delimiter None"
    using load_for_processing_policy [of rd b2 delimiter] g c2 by simp
  show ?thesis
    using c3 pv fv gv
    by (simp add: p f g load_full_info_policy load_preview_policy fallback_policy_head)
qed


theorem repeated_parses_agree_witness:
  "case load_preview sample_reader \<lparr>content = sample_bytes, pos = 0\<rparr> '','' of (preview, b1) \<Rightarrow>
   case load_full_info sample_reader b1 '','' of (full, b2) \<Rightarrow>
   case load_for_processing sample_reader b2 '','' of (processed, b3) \<Rightarrow>
       processed = Inr sample_frame \<and> full = Inr sample_frame
     \<and> preview = head_of_result 10 full"
  using repeated_parses_agree [where rd = sample_reader
      and b = "\<lparr>content = sample_bytes, pos = 0\<rparr>" and delimiter = "'',''"]
  by (simp add: row_limit_is_prefix_def sample_reader_def head_of_result_def df_head_def
      sample_frame_def load_full_info_policy fallback_policy_def split: prod.splits)

text \<open>
  C9, as stated, fails where the parser infers the type of a column from the rows it
  reads: the preview holds ten integers, the first ten rows of the full dataset hold
  ten strings.
\<close>

theorem preview_differs_from_full_head:
  "fst (load_preview mixed_reader \<lparr>content = mixed_bytes, pos = 0\<rparr> '','')
     = Inr [(''a'', IntCol [10, 20, 30, 40, 50, 60, 70, 80, 90, 100])]
 \<and> head_of_result 10
      (fst (load_full_info mixed_reader
              (snd (load_preview mixed_reader \<lparr>content = mixed_bytes, pos = 0\<rparr> '','')) '',''))
     = Inr [(''a'', TxtCol [''10'', ''20'', ''30'', ''40'', ''50'', ''60'', ''70'', ''80'', ''90'', ''100''])]"
  by (simp add: load_preview_policy load_full_info_policy load_preview_content
      fallback_policy_def mixed_reader_def head_of_result_def df_head_def)


section \<open>The flow of \<open>main\<close>: properties\<close>

text \<open>
  C5, as amended. When the parsed dataset has no column, the error on the detection of
  columns is shown after the header of the step and the run stops there, before the
  selectors and any further step. When it has a column, one or more, the check passes:
  the three selectors are shown with their defaults, and the run is not stopped.
\<close>

theorem column_stage_check:
  "(columns full_data_info = [] \<longrightarrow>
      column_stage g rd ui b full_data_info
        = ([Header Column_config_section, Msg Error No_columns_detected], Stopped))
 \<and> (columns full_data_info \<noteq> [] \<longrightarrow>
      snd (column_stage g rd ui b full_data_info) = Finished
    \<and> (\<exists>rest. fst (column_stage g rd ui b full_data_info) =
          [Header Column_config_section,
           Selectbox Time_column_selector (columns full_data_info)
             (default_time_col_index (columns full_data_info)),
           Selectbox Signal_column_selector (columns full_data_info)
             (default_signal_col_index (columns full_data_info)),
           Selectbox Time_unit_selector time_unit_options 0] @ rest))"
  by (simp add: column_stage_def Let_def)

theorem column_stage_check_witness:
  "column_stage (Loaded sample_lib) sample_reader (sample_input sample_bytes)
      \<lparr>content = sample_bytes, pos = 0\<rparr> []
     = ([Header Column_config_section, Msg Error No_columns_detected], Stopped)
 \<and> snd (column_stage (Loaded sample_lib) sample_reader (sample_input sample_bytes)
      \<lparr>content = sample_bytes, pos = 0\<rparr> sample_frame) = Finished"
  using column_stage_check [where full_data_info = "[]" and g = "Loaded sample_lib"
      and rd = sample_reader and ui = "sample_input sample_bytes"
      and b = "\<lparr>content = sample_bytes, pos = 0\<rparr>"]
    column_stage_check [where full_data_info = sample_frame and g = "Loaded sample_lib"
      and rd = sample_reader and ui = "sample_input sample_bytes"
      and b = "\<lparr>content = sample_bytes, pos = 0\<rparr>"]
  by (simp add: columns_def sample_frame_def)

text \<open>
  C5, as stated, fails on a file of one column: a file written with semicolons and read
  with the comma as delimiter is loaded, no error on the columns is shown, and the
  selectors offer its one column as time and as signal.
\<close>

theorem single_column_is_not_halted:
  "main (Loaded sample_lib) semicolon_reader (sample_input semicolon_bytes) =
     ([Header Upload_section, Msg Success File_loaded_preview,
       Show_frame [(''Tempo;Sinal'', TxtCol [''0.0;0.0'', ''1.0;60.0''])],
       Dataset_info 2 1 [''Tempo;Sinal''],
       Describe_shown [(''Tempo;Sinal'', TxtCol [''0.0;0.0'', ''1.0;60.0''])],
       Header Column_config_section,
       Selectbox Time_column_selector [''Tempo;Sinal''] 0,
       Selectbox Signal_column_selector [''Tempo;Sinal''] 0,
       Selectbox Time_unit_selector [''Segundos'', ''Minutos'', ''Milissegundos''] 0],
      Finished)"
proof -
  have p: "load_preview semicolon_reader \<lparr>content = semicolon_bytes, pos = 0\<rparr> '','' =
      (Inr [(''Tempo;Sinal'', TxtCol [''0.0;0.0'', ''1.0;60.0''])],
       \<lparr>content = semicolon_bytes, pos = length semicolon_bytes\<rparr>)"
    by (simp add: load_preview_def seek_def read_csv_def semicolon_reader_def)
  have f: "load_full_info semicolon_reader \<lparr>content = semicolon_bytes, pos = length semicolon_bytes\<rparr> '','' =
      (Inr [(''Tempo;Sinal'', TxtCol [''0.0;0.0'', ''1.0;60.0''])],
       \<lparr>content = semicolon_bytes, pos = length semicolon_bytes\<rparr>)"
    by (simp add: load_full_info_def seek_def read_csv_def semicolon_reader_def)
  show ?thesis
    by (simp add: main_def file_flow_def sample_input_def p f column_stage_def columns_def
        Let_def n_rows_def describe_events_def default_time_col_index_def default_signal_col_index_def
        time_unit_options_def)
qed

text \<open>
  C7 fails where the library is unavailable: the import fails, the two messages of its
  handler are shown, and the definition of \<^verbatim>\<open>process_chromatogram_hplc\<close> raises
  \<^verbatim>\<open>NameError\<close> on the name \<^verbatim>\<open>Chromatogram\<close> of its return annotation. The script ends
  there, whatever the file and the input of the user: \<open>main\<close> is not called, nothing is
  plotted, and the panel of the peaks is not shown. With the library, the script runs
  \<open>main\<close>.
\<close>

theorem missing_library_ends_the_script:
  "run_script None rd ui =
     ([Msg Error Hplc_library_not_found, Msg Info Peak_features_unavailable],
      Uncaught (NameError ''Chromatogram''))
 \<and> run_script (Some lib) rd ui =
     (fst (main (Loaded lib) rd ui), Ended (snd (main (Loaded lib) rd ui)))"
  by (simp add: run_script_def load_module_def import_events_def split: prod.splits)


end
